theory Spec2Isabelle
  imports Complex_Main
begin

section \<open>Data model\<close>

text \<open>
  JavaScript numbers are modelled by the reals: finite values with exact arithmetic.
  NaN, the infinities and rounding of doubles are outside the model; the evaluations
  of balances below are on whole numbers, where the arithmetic of doubles is exact.
  Strings are lists of 8-bit characters: a character is a UTF-16 code unit below 256
  (Latin-1), and strings with other code units are outside the model.  Opaque browser
  and SDK objects (media streams, audio contexts, audio nodes, the promise of the live
  session) are handles of type \<open>nat\<close>; a \<open>null\<close> ref is \<open>None\<close>.
\<close>

subsection \<open>\<open>types.ts\<close>: senders and transcript messages\<close>

datatype Sender = User | Agent

record Message =
  msg_id :: string
  sender :: Sender
  msg_text :: string

subsection \<open>\<open>mock/backend.ts\<close>: transactions\<close>

datatype TransactionType = debit | credit

record MockTransaction =
  tx_id :: string
  tx_date :: string
  tx_description :: string
  tx_amount :: real
  tx_type :: TransactionType

text \<open>The module-level constant \<open>mockData\<close>: an object with the two own properties
  \<open>checking\<close> and \<open>savings\<close>.\<close>

record MockData =
  md_checking :: "MockTransaction list"
  md_savings :: "MockTransaction list"

subsection \<open>Exceptions\<close>

datatype Exn = TypeError


section \<open>JavaScript built-ins used by the program\<close>

text \<open>\<open>String.prototype.toLowerCase\<close> on the code units below 256: the upper-case
  letters are \<open>A\<close> to \<open>Z\<close> (codes 65 to 90) and the accented capitals (codes 192 to
  222 without the multiplication sign 215); each moves up by 32, which sets bit 5.  Every
  other character is left as it is.\<close>

definition toLowerChar :: "char \<Rightarrow> char" where
  "toLowerChar c =
     (let n = (of_char c :: nat)
      in if (65 \<le> n \<and> n \<le> 90) \<or> (192 \<le> n \<and> n \<le> 222 \<and> n \<noteq> 215)
         then (case c of Char b0 b1 b2 b3 b4 b5 b6 b7 \<Rightarrow> Char b0 b1 b2 b3 b4 True b6 b7)
         else c)"

definition toLowerCase :: "string \<Rightarrow> string" where
  "toLowerCase s = map toLowerChar s"

text \<open>\<open>String.prototype.trim\<close> strips white space and line terminators from both ends.
  Below 256 these are tab, line feed, vertical tab, form feed, carriage return (codes 9
  to 13), space (32) and no-break space (160).\<close>

definition isWhiteSpace :: "char \<Rightarrow> bool" where
  "isWhiteSpace c =
     (let n = (of_char c :: nat) in (9 \<le> n \<and> n \<le> 13) \<or> n = 32 \<or> n = 160)"

definition trim :: "string \<Rightarrow> string" where
  "trim s = rev (dropWhile isWhiteSpace (rev (dropWhile isWhiteSpace s)))"

text \<open>\<open>ToIntegerOrInfinity\<close> truncates towards zero.  \<open>Array.prototype.slice(start, end)\<close>
  counts a negative argument from the end of the array and clamps both positions to
  \<open>[0, length]\<close>.\<close>

definition toIntegerOrInfinity :: "real \<Rightarrow> int" where
  "toIntegerOrInfinity x = (if x < 0 then \<lceil>x\<rceil> else \<lfloor>x\<rfloor>)"

definition relativeIndex :: "nat \<Rightarrow> real \<Rightarrow> nat" where
  "relativeIndex len x =
     (let rel = toIntegerOrInfinity x
      in if rel < 0 then nat (max (int len + rel) 0) else nat (min rel (int len)))"

definition slice :: "'a list \<Rightarrow> real \<Rightarrow> real \<Rightarrow> 'a list" where
  "slice xs start stop =
     (let k = relativeIndex (length xs) start;
          final = relativeIndex (length xs) stop
      in take (final - k) (drop k xs))"

text \<open>The property names every plain object inherits from \<open>Object.prototype\<close>.  Reading
  one of them from an object literal yields a function (or, for \<open>__proto__\<close>, the
  prototype object), never \<open>undefined\<close> and never an array.\<close>

definition objectPrototypeProperties :: "string list" where
  "objectPrototypeProperties =
     [''constructor'', ''__proto__'', ''hasOwnProperty'', ''isPrototypeOf'',
      ''propertyIsEnumerable'', ''toLocaleString'', ''toString'', ''valueOf'',
      ''__defineGetter__'', ''__defineSetter__'', ''__lookupGetter__'',
      ''__lookupSetter__'']"


section \<open>\<open>mock/backend.ts\<close>\<close>

text \<open>
  \<open>generateRandomTransactions\<close> pushes one object per iteration of its loop (lines 17
  to 28).  The fields of that object (lines 21 to 27) are drawn from \<open>Math.random()\<close>
  and from the clock, which the program text does not determine; the object built at
  index \<open>i\<close> for an account type is therefore the parameter \<open>entry\<close>.  The number of
  iterations, and with it the length of the two stored lists, is that of the source.
\<close>

function generateRandomTransactions_loop ::
  "(string \<Rightarrow> nat \<Rightarrow> MockTransaction) \<Rightarrow> string \<Rightarrow> nat \<Rightarrow> nat \<Rightarrow>
   MockTransaction list \<Rightarrow> MockTransaction list" where
  "generateRandomTransactions_loop entry accountType count i transactions =
     (if i < count
      then generateRandomTransactions_loop entry accountType count (Suc i)
             (transactions @ [entry accountType i])
      else transactions)"
  by pat_completeness auto
termination
  by (relation "measure (\<lambda>(entry, accountType, count, i, transactions). count - i)") auto

declare generateRandomTransactions_loop.simps [simp del]

definition generateRandomTransactions ::
  "(string \<Rightarrow> nat \<Rightarrow> MockTransaction) \<Rightarrow> string \<Rightarrow> nat \<Rightarrow> MockTransaction list" where
  "generateRandomTransactions entry accountType count =
     generateRandomTransactions_loop entry accountType count 0 []"

definition mockData :: "(string \<Rightarrow> nat \<Rightarrow> MockTransaction) \<Rightarrow> MockData" where
  "mockData entry =
     \<lparr> md_checking = generateRandomTransactions entry ''checking'' 20,
       md_savings = generateRandomTransactions entry ''savings'' 15 \<rparr>"

text \<open>The value of \<open>mockData[accountType]\<close> for an arbitrary string: an own array, a
  value inherited from \<open>Object.prototype\<close>, or \<open>undefined\<close>.\<close>

datatype MockDataProperty =
    OwnArray "MockTransaction list"
  | Inherited
  | Undefined

definition mockData_get :: "MockData \<Rightarrow> string \<Rightarrow> MockDataProperty" where
  "mockData_get md accountType =
     (if accountType = ''checking'' then OwnArray (md_checking md)
      else if accountType = ''savings'' then OwnArray (md_savings md)
      else if accountType \<in> set objectPrototypeProperties then Inherited
      else Undefined)"

text \<open>
  \<open>mockData[accountType]?.slice(0, limit) || []\<close> with the default \<open>limit = 10\<close> for an
  omitted argument.  The optional chain stops only at \<open>undefined\<close>; an inherited value
  is not nullish and has no \<open>slice\<close> method, so the call throws a \<open>TypeError\<close>.  An
  array, even an empty one, is truthy, so \<open>|| []\<close> keeps the slice.
\<close>

definition getMockTransactionHistory ::
  "MockData \<Rightarrow> string \<Rightarrow> real option \<Rightarrow> Exn + MockTransaction list" where
  "getMockTransactionHistory md accountType limitArg =
     (let limit = (case limitArg of None \<Rightarrow> 10 | Some l \<Rightarrow> l)
      in case mockData_get md accountType of
           Undefined \<Rightarrow> Inr []
         | Inherited \<Rightarrow> Inl TypeError
         | OwnArray xs \<Rightarrow> Inr (slice xs 0 limit))"


section \<open>\<open>components/Conversation.tsx\<close>: state\<close>

datatype Status = idle | connecting | connected

record Accounts =
  "checking" :: real
  savings :: real

text \<open>\<open>keyof Accounts\<close>, the type the handler casts account names to.\<close>

datatype AccountKey = Checking | Savings

text \<open>
  The component state (\<open>useState\<close>) and the refs (\<open>useRef\<close>) that the handlers below read
  or write.  The audio scheduling refs (\<open>nextStartTimeRef\<close>, \<open>audioSourcesRef\<close>) and
  \<open>transcriptEndRef\<close> are not part of the model; none of the modelled handlers but the
  audio playback part of \<open>handleMessage\<close>, which is left out, touches them.

  The state that is passed through a handler is the pending state.  A call of a state
  setter whose argument reads no ref (a value, or the updater of \<open>setAccounts\<close>) is
  applied to it in program order, which is the order in which React applies the queued
  updates.  The updaters given to \<open>setTranscript\<close> read a ref in their body; they are
  queued and run when React renders next, after the handler has returned (see
  \<open>handleMessage\<close>).  What a handler reads from its closure (\<open>accounts\<close> in
  \<open>handleToolCall\<close>) is the value of the render that created the handler; no setter call
  changes it.
\<close>

record AppState =
  isRecording :: bool
  transcript :: "Message list"
  error :: "string option"
  status :: Status
  accounts :: Accounts
  apiKeySelected :: bool
  transactions :: "MockTransaction list"
  viewingHistory :: "string option"
  sessionPromiseRef :: "nat option"
  inputAudioContextRef :: "nat option"
  outputAudioContextRef :: "nat option"
  mediaStreamRef :: "nat option"
  scriptProcessorRef :: "nat option"
  mediaStreamSourceRef :: "nat option"
  currentInputTranscriptionRef :: string
  currentOutputTranscriptionRef :: string


section \<open>\<open>handleToolCall\<close>\<close>

text \<open>
  A function call of the model: \<open>fc.id\<close>, \<open>fc.name\<close> and \<open>fc.args\<close>.  The arguments
  follow the three function declarations: the fields marked \<open>required\<close> are present,
  \<open>limit\<close> is optional.  A branch reads only the fields of its own declaration.
\<close>

record Args =
  arg_accountType :: string
  arg_amount :: real
  arg_fromAccount :: string
  arg_toAccount :: string
  arg_limit :: "real option"

record FunctionCall =
  fc_id :: string
  fc_name :: string
  fc_args :: Args

text \<open>The object literals assigned to \<open>result\<close>:
  \<open>{ balance }\<close>, \<open>{ error }\<close> with an optional \<open>currentBalance\<close>,
  \<open>{ success: true, fromAccount, toAccount, amount, newFromBalance }\<close> and
  \<open>{ success: true, transactionsRetrieved }\<close>.\<close>

datatype Result =
    BalanceResult real
  | ErrorResult string "real option"
  | TransferResult string string real real
  | HistoryResult nat

text \<open>The argument of \<open>session.sendToolResponse\<close>.\<close>

record FunctionResponse =
  resp_id :: string
  resp_name :: string
  resp_result :: Result

text \<open>
  \<open>accounts.hasOwnProperty(k)\<close> holds for the two own property names of the accounts
  object and for no other string; \<open>accountKey\<close> returns the key in that case.
\<close>

definition accountKey :: "string \<Rightarrow> AccountKey option" where
  "accountKey k =
     (if k = ''checking'' then Some Checking
      else if k = ''savings'' then Some Savings
      else None)"

text \<open>\<open>a[k]\<close> and \<open>{ ...a, [k]: v }\<close> for a key \<open>k\<close> of the accounts object.\<close>

fun accountsGet :: "Accounts \<Rightarrow> AccountKey \<Rightarrow> real" where
  "accountsGet a Checking = checking a"
| "accountsGet a Savings = savings a"

fun accountsSet :: "Accounts \<Rightarrow> AccountKey \<Rightarrow> real \<Rightarrow> Accounts" where
  "accountsSet a Checking v = a\<lparr>checking := v\<rparr>"
| "accountsSet a Savings v = a\<lparr>savings := v\<rparr>"

text \<open>
  The updater \<open>prev => ({ ...prev, [from]: prev[from] - amount, [to]: prev[to] + amount })\<close>.
  Both new values are computed from \<open>prev\<close>; the properties are written in the order of
  the literal, so a later key overwrites an equal earlier one.
\<close>

definition transferUpdater :: "AccountKey \<Rightarrow> AccountKey \<Rightarrow> real \<Rightarrow> Accounts \<Rightarrow> Accounts" where
  "transferUpdater fromKey toKey amount prev =
     accountsSet (accountsSet prev fromKey (accountsGet prev fromKey - amount))
       toKey (accountsGet prev toKey + amount)"

text \<open>
  The body of the loop of \<open>handleToolCall\<close> up to the end of the \<open>switch\<close> (lines 135
  to 172): one function call is turned into a \<open>result\<close> and state updates.  The handler
  reads \<open>accounts\<close> from its closure: \<open>accs\<close> is that value, the accounts state of the
  render that created the callback.  \<open>setAccounts\<close> is given an updater, which is applied
  to the pending state \<open>st\<close>.  For a callback of the current render with no update
  pending, \<open>accs = accounts st\<close>.
\<close>

definition handleFunctionCall ::
  "MockData \<Rightarrow> Accounts \<Rightarrow> AppState \<Rightarrow> FunctionCall \<Rightarrow> Exn + (AppState \<times> Result)" where
  "handleFunctionCall md accs st fc =
     (if fc_name fc = ''getAccountBalance'' then
        (let accountType = toLowerCase (arg_accountType (fc_args fc))
         in case accountKey accountType of
              Some k \<Rightarrow> Inr (st, BalanceResult (accountsGet accs k))
            | None \<Rightarrow>
                Inr (st, ErrorResult
                  (''Account type '' @ [CHR 0x27] @ accountType @ [CHR 0x27] @ '' not found.'')
                  None))
      else if fc_name fc = ''transferFunds'' then
        (let amount = arg_amount (fc_args fc);
             from = toLowerCase (arg_fromAccount (fc_args fc));
             to = toLowerCase (arg_toAccount (fc_args fc))
         in case (accountKey from, accountKey to) of
              (Some fromKey, Some toKey) \<Rightarrow>
                if accountsGet accs fromKey < amount
                then Inr (st, ErrorResult ''Insufficient funds.''
                            (Some (accountsGet accs fromKey)))
                else Inr (st\<lparr>accounts := transferUpdater fromKey toKey amount (accounts st)\<rparr>,
                          TransferResult from to amount (accountsGet accs fromKey - amount))
            | _ \<Rightarrow> Inr (st, ErrorResult ''Invalid account specified.'' None))
      else if fc_name fc = ''getTransactionHistory'' then
        (let historyAccount = arg_accountType (fc_args fc);
             limit = arg_limit (fc_args fc)
         in case getMockTransactionHistory md (toLowerCase historyAccount) limit of
              Inl e \<Rightarrow> Inl e
            | Inr history \<Rightarrow>
                Inr (st\<lparr>transactions := history, viewingHistory := Some historyAccount\<rparr>,
                     HistoryResult (length history)))
      else Inr (st, ErrorResult (''Unknown function call: '' @ fc_name fc) None))"

text \<open>
  The loop over \<open>toolCall.functionCalls\<close>.  Every completed iteration hands one response
  to the session (\<open>sessionPromise.then(...)\<close>); \<open>sent\<close> collects them in order.  An
  exception leaves the loop with the state and the responses reached so far.
\<close>

fun handleToolCall_loop ::
  "MockData \<Rightarrow> Accounts \<Rightarrow> AppState \<Rightarrow> FunctionCall list \<Rightarrow> FunctionResponse list \<Rightarrow>
   AppState \<times> FunctionResponse list \<times> Exn option" where
  "handleToolCall_loop md accs st [] sent = (st, sent, None)"
| "handleToolCall_loop md accs st (fc # fcs) sent =
     (case handleFunctionCall md accs st fc of
        Inl e \<Rightarrow> (st, sent, Some e)
      | Inr (st', result) \<Rightarrow>
          handleToolCall_loop md accs st' fcs
            (sent @ [\<lparr> resp_id = fc_id fc, resp_name = fc_name fc, resp_result = result \<rparr>]))"

text \<open>\<open>handleToolCall\<close>: nothing happens when \<open>sessionPromiseRef.current\<close> is \<open>null\<close>.\<close>

definition handleToolCall ::
  "MockData \<Rightarrow> Accounts \<Rightarrow> AppState \<Rightarrow> FunctionCall list \<Rightarrow>
   AppState \<times> FunctionResponse list \<times> Exn option" where
  "handleToolCall md accs st functionCalls =
     (case sessionPromiseRef st of
        None \<Rightarrow> (st, [], None)
      | Some sessionPromise \<Rightarrow> handleToolCall_loop md accs st functionCalls [])"


section \<open>\<open>handleMessage\<close>\<close>

text \<open>The fields of a \<open>LiveServerMessage\<close> that the handler reads.  A transcription, when
  present, carries its \<open>text\<close>.\<close>

record ServerContent =
  outputTranscription :: "string option"
  inputTranscription :: "string option"
  turnComplete :: bool

record LiveServerMessage =
  toolCall :: "FunctionCall list option"
  serverContent :: "ServerContent option"

text \<open>
  The body of the updater passed to \<open>setTranscript\<close> at each of its four uses, for the
  text \<open>txt\<close> it reads from its ref: \<open>last = prev[prev.length - 1]\<close>; if there is a last
  entry and its sender is the given one, \<open>[...prev.slice(0, -1), { ...last, text }]\<close>,
  otherwise \<open>prev\<close>.
\<close>

definition replaceLastText :: "Sender \<Rightarrow> string \<Rightarrow> Message list \<Rightarrow> Message list" where
  "replaceLastText who txt prev =
     (if prev = [] then prev
      else if sender (last prev) = who
           then slice prev 0 (- 1) @ [(last prev)\<lparr>msg_text := txt\<rparr>]
           else prev)"

text \<open>
  \<open>setTranscript\<close> is given such an updater at each use, and the updater reads an
  accumulator ref in its body: \<open>currentOutputTranscriptionRef.current\<close> in the two
  updaters for the Agent (lines 194 to 201 and 226 to 232),
  \<open>currentInputTranscriptionRef.current\<close> in the two for the User (lines 206 to 213 and
  217 to 223).  React queues the updater and calls it when it renders next, after the
  handler has returned; the updater sees the ref as it is then.  A queued updater is
  given by its sender; \<open>runUpdater\<close> is what React does when it calls it.

  React may call the first updater of a handler at the \<open>setTranscript\<close> call itself,
  when no update of the state is pending.  For a chunk in a message without
  \<open>turnComplete\<close> the ref is the same at both moments.  For a chunk and \<open>turnComplete\<close> in
  one message the updater of the \<open>turnComplete\<close> branch is not the first of the handler:
  it runs after the accumulators have been cleared, and it writes last.
\<close>

definition runUpdater :: "Sender \<Rightarrow> AppState \<Rightarrow> AppState" where
  "runUpdater who st =
     st\<lparr>transcript :=
          replaceLastText who
            (case who of
               Agent \<Rightarrow> currentOutputTranscriptionRef st
             | User \<Rightarrow> currentInputTranscriptionRef st)
            (transcript st)\<rparr>"

fun runUpdaters :: "Sender list \<Rightarrow> AppState \<Rightarrow> AppState" where
  "runUpdaters [] st = st"
| "runUpdaters (who # queue) st = runUpdaters queue (runUpdater who st)"

text \<open>
  The three branches of the server content block, in the order of the source: an output
  transcription chunk (lines 191 to 202), an input transcription chunk (lines 203 to 214)
  and \<open>turnComplete\<close> (lines 215 to 236).  Each returns the state with the refs as it
  leaves them, and the updaters it has queued.  The first two append the text of the
  chunk to their accumulator ref and queue one updater; the third queues an updater for
  each accumulator that is not blank and then clears both accumulators.
\<close>

definition onOutputTranscription :: "string \<Rightarrow> AppState \<Rightarrow> AppState \<times> Sender list" where
  "onOutputTranscription txt st =
     (st\<lparr>currentOutputTranscriptionRef := currentOutputTranscriptionRef st @ txt\<rparr>, [Agent])"

definition onInputTranscription :: "string \<Rightarrow> AppState \<Rightarrow> AppState \<times> Sender list" where
  "onInputTranscription txt st =
     (st\<lparr>currentInputTranscriptionRef := currentInputTranscriptionRef st @ txt\<rparr>, [User])"

definition onTurnComplete :: "AppState \<Rightarrow> AppState \<times> Sender list" where
  "onTurnComplete st =
     (st\<lparr>currentInputTranscriptionRef := [], currentOutputTranscriptionRef := []\<rparr>,
      (if trim (currentInputTranscriptionRef st) \<noteq> [] then [User] else [])
      @ (if trim (currentOutputTranscriptionRef st) \<noteq> [] then [Agent] else []))"

text \<open>The block \<open>if (message.serverContent) { ... }\<close> up to the end of the
  \<open>turnComplete\<close> branch (lines 190 to 236): the three branches, each under its test.
  The result is the state with the refs updated, and the queue of updaters in the order
  of the \<open>setTranscript\<close> calls.\<close>

definition handleServerContent :: "ServerContent \<Rightarrow> AppState \<Rightarrow> AppState \<times> Sender list" where
  "handleServerContent sc st =
     (case (case outputTranscription sc of
              None \<Rightarrow> (st, [])
            | Some txt \<Rightarrow> onOutputTranscription txt st) of
        (st1, queue1) \<Rightarrow>
          (case (case inputTranscription sc of
                   None \<Rightarrow> (st1, [])
                 | Some txt \<Rightarrow> onInputTranscription txt st1) of
             (st2, queue2) \<Rightarrow>
               (case (if turnComplete sc then onTurnComplete st2 else (st2, [])) of
                  (st3, queue3) \<Rightarrow> (st3, queue1 @ queue2 @ queue3))))"

text \<open>
  \<open>handleMessage\<close> without its audio playback part, followed by the render in which
  React runs the updaters the handler has queued.  An exception of \<open>handleToolCall\<close>
  ends the handler before the server content is looked at.
\<close>

definition handleMessage ::
  "MockData \<Rightarrow> Accounts \<Rightarrow> AppState \<Rightarrow> LiveServerMessage \<Rightarrow>
   AppState \<times> FunctionResponse list \<times> Exn option" where
  "handleMessage md accs st message =
     (case (case toolCall message of
              None \<Rightarrow> (st, [], None)
            | Some functionCalls \<Rightarrow> handleToolCall md accs st functionCalls) of
        (st1, sent, Some e) \<Rightarrow> (st1, sent, Some e)
      | (st1, sent, None) \<Rightarrow>
          (case serverContent message of
             None \<Rightarrow> (st1, sent, None)
           | Some sc \<Rightarrow>
               (case handleServerContent sc st1 of
                  (st2, queue) \<Rightarrow> (runUpdaters queue st2, sent, None))))"

text \<open>
  A live session.  \<open>ai.live.connect\<close> is given \<open>onmessage: handleMessage\<close> once (line
  313), and the session calls that function for every message of the server.  It is the
  \<open>handleMessage\<close> of the render in which \<open>startConversation\<close> ran; the \<open>handleToolCall\<close>
  it calls closes over the \<open>accounts\<close> of that render (lines 130 to 184).  A later
  \<open>setAccounts\<close> makes React render again and build new callbacks (the dependency lists
  at lines 184, 263 and 343), but nothing hands them to the session.  So every message
  of a session is handled with the accounts value of the state in which the session was
  started, here \<open>accounts started\<close>.  An exception in the handler of one message does not
  keep the session from delivering the next.
\<close>

fun onmessages ::
  "MockData \<Rightarrow> Accounts \<Rightarrow> AppState \<Rightarrow> LiveServerMessage list \<Rightarrow>
   AppState \<times> FunctionResponse list" where
  "onmessages md accs st [] = (st, [])"
| "onmessages md accs st (message # messages) =
     (case handleMessage md accs st message of
        (st1, sent, exn) \<Rightarrow>
          (case onmessages md accs st1 messages of
             (st2, sent') \<Rightarrow> (st2, sent @ sent')))"

definition sessionMessages ::
  "MockData \<Rightarrow> AppState \<Rightarrow> LiveServerMessage list \<Rightarrow> AppState \<times> FunctionResponse list" where
  "sessionMessages md started messages = onmessages md (accounts started) started messages"


section \<open>\<open>startConversation\<close> and \<open>stopConversation\<close>\<close>

text \<open>
  What the platform does during one run of \<open>startConversation\<close>: each call of the
  \<open>try\<close> block either throws (for \<open>getUserMedia\<close>: the awaited promise rejects) or
  returns a handle.  \<open>ai.live.connect\<close> returns the promise of the session, which is
  stored and not awaited; a later rejection of that promise is no outcome of this run
  and does not reach the \<open>catch\<close> branch.
\<close>

datatype 'a Outcome = Throws | Returns 'a

record Platform =
  getUserMedia :: "nat Outcome"
  newInputAudioContext :: "nat Outcome"
  newOutputAudioContext :: "nat Outcome"
  newGoogleGenAI :: "unit Outcome"
  liveConnect :: "nat Outcome"

text \<open>The \<open>catch\<close> branch: \<open>setError(...)\<close> and \<open>setStatus('idle')\<close>.\<close>

definition catchBranch :: "AppState \<Rightarrow> AppState" where
  "catchBranch st =
     st\<lparr>error := Some ''Could not access the microphone. Please grant permission and try again.'',
        status := idle\<rparr>"

definition startConversation :: "Platform \<Rightarrow> AppState \<Rightarrow> AppState" where
  "startConversation p st0 =
     (let st1 = st0\<lparr>error := None, status := connecting, transcript := [],
                    transactions := [], viewingHistory := None\<rparr>
      in case getUserMedia p of
           Throws \<Rightarrow> catchBranch st1
         | Returns stream \<Rightarrow>
             (let st2 = st1\<lparr>mediaStreamRef := Some stream\<rparr>
              in case newInputAudioContext p of
                   Throws \<Rightarrow> catchBranch st2
                 | Returns inputContext \<Rightarrow>
                     (let st3 = st2\<lparr>inputAudioContextRef := Some inputContext\<rparr>
                      in case newOutputAudioContext p of
                           Throws \<Rightarrow> catchBranch st3
                         | Returns outputContext \<Rightarrow>
                             (let st4 = st3\<lparr>outputAudioContextRef := Some outputContext\<rparr>
                              in case newGoogleGenAI p of
                                   Throws \<Rightarrow> catchBranch st4
                                 | Returns ai \<Rightarrow>
                                     (case liveConnect p of
                                        Throws \<Rightarrow> catchBranch st4
                                      | Returns sessionPromise \<Rightarrow>
                                          st4\<lparr>sessionPromiseRef := Some sessionPromise\<rparr>)))))"

text \<open>\<open>stopConversation\<close>.  The calls on the released objects (\<open>close\<close>, \<open>stop\<close>,
  \<open>disconnect\<close>) act outside the component state.\<close>

definition stopConversation :: "AppState \<Rightarrow> AppState" where
  "stopConversation st0 =
     (let st1 = st0\<lparr>isRecording := False, status := idle\<rparr>;
          st2 = st1\<lparr>sessionPromiseRef := None\<rparr>;
          st3 = st2\<lparr>mediaStreamRef := None\<rparr>;
          st4 = (case scriptProcessorRef st3 of
                   None \<Rightarrow> st3
                 | Some scriptProcessor \<Rightarrow> st3\<lparr>scriptProcessorRef := None\<rparr>);
          st5 = (case mediaStreamSourceRef st4 of
                   None \<Rightarrow> st4
                 | Some source \<Rightarrow> st4\<lparr>mediaStreamSourceRef := None\<rparr>)
      in st5\<lparr>inputAudioContextRef := None, outputAudioContextRef := None\<rparr>)"

section \<open>Sample inputs\<close>

text \<open>Concrete values on which the theorems below are instantiated: a generator of
  mock entries, the initial accounts and component state of the source, and function
  calls.\<close>

definition sampleEntry :: "string \<Rightarrow> nat \<Rightarrow> MockTransaction" where
  "sampleEntry accountType i =
     \<lparr> tx_id = accountType, tx_date = ''2025-01-01'', tx_description = ''Coffee Shop'',
       tx_amount = 5 + real i, tx_type = debit \<rparr>"

definition initialAccounts :: Accounts where
  "initialAccounts = \<lparr> checking = 1000, savings = 5000 \<rparr>"

definition initialState :: AppState where
  "initialState =
     \<lparr> isRecording = False, transcript = [], error = None, status = idle,
       accounts = initialAccounts, apiKeySelected = True, transactions = [],
       viewingHistory = None, sessionPromiseRef = None, inputAudioContextRef = None,
       outputAudioContextRef = None, mediaStreamRef = None, scriptProcessorRef = None,
       mediaStreamSourceRef = None, currentInputTranscriptionRef = [],
       currentOutputTranscriptionRef = [] \<rparr>"

definition selfTransfer :: FunctionCall where
  "selfTransfer =
     \<lparr> fc_id = ''call-2'', fc_name = ''transferFunds'',
       fc_args = \<lparr> arg_accountType = [], arg_amount = 100, arg_fromAccount = ''checking'',
                   arg_toAccount = ''checking'', arg_limit = None \<rparr> \<rparr>"

definition historyCall :: FunctionCall where
  "historyCall =
     \<lparr> fc_id = ''call-5'', fc_name = ''getTransactionHistory'',
       fc_args = \<lparr> arg_accountType = ''Savings'', arg_amount = 0, arg_fromAccount = [],
                   arg_toAccount = [], arg_limit = Some 3 \<rparr> \<rparr>"

definition negativeLimitCall :: FunctionCall where
  "negativeLimitCall =
     \<lparr> fc_id = ''call-6'', fc_name = ''getTransactionHistory'',
       fc_args = \<lparr> arg_accountType = ''checking'', arg_amount = 0, arg_fromAccount = [],
                   arg_toAccount = [], arg_limit = Some (- 3) \<rparr> \<rparr>"

definition connectedState :: AppState where
  "connectedState =
     initialState\<lparr> isRecording := True, status := connected,
       transcript := [\<lparr> msg_id = ''1700000000000'', sender = User, msg_text = [] \<rparr>,
                      \<lparr> msg_id = ''1700000000001'', sender = Agent, msg_text = [] \<rparr>],
       sessionPromiseRef := Some 1, inputAudioContextRef := Some 2,
       outputAudioContextRef := Some 3, mediaStreamRef := Some 4,
       scriptProcessorRef := Some 5, mediaStreamSourceRef := Some 6 \<rparr>"

definition constructorHistoryCall :: FunctionCall where
  "constructorHistoryCall =
     \<lparr> fc_id = ''call-7'', fc_name = ''getTransactionHistory'',
       fc_args = \<lparr> arg_accountType = ''constructor'', arg_amount = 0, arg_fromAccount = [],
                   arg_toAccount = [], arg_limit = None \<rparr> \<rparr>"

definition unknownCall :: FunctionCall where
  "unknownCall =
     \<lparr> fc_id = ''call-8'', fc_name = ''closeAccount'',
       fc_args = \<lparr> arg_accountType = ''checking'', arg_amount = 0, arg_fromAccount = [],
                   arg_toAccount = [], arg_limit = None \<rparr> \<rparr>"

definition connectThrows :: Platform where
  "connectThrows =
     \<lparr> getUserMedia = Returns 4, newInputAudioContext = Returns 2,
       newOutputAudioContext = Returns 3, newGoogleGenAI = Returns (), liveConnect = Throws \<rparr>"

definition microphoneDenied :: Platform where
  "microphoneDenied =
     \<lparr> getUserMedia = Throws, newInputAudioContext = Returns 2,
       newOutputAudioContext = Returns 3, newGoogleGenAI = Returns (), liveConnect = Returns 1 \<rparr>"

definition transferCall :: FunctionCall where
  "transferCall =
     \<lparr> fc_id = ''call-9'', fc_name = ''transferFunds'',
       fc_args = \<lparr> arg_accountType = [], arg_amount = 100, arg_fromAccount = ''Checking'',
                   arg_toAccount = ''Savings'', arg_limit = None \<rparr> \<rparr>"

definition checkingBalanceCall :: FunctionCall where
  "checkingBalanceCall =
     \<lparr> fc_id = ''call-10'', fc_name = ''getAccountBalance'',
       fc_args = \<lparr> arg_accountType = ''checking'', arg_amount = 0, arg_fromAccount = [],
                   arg_toAccount = [], arg_limit = None \<rparr> \<rparr>"

definition overdraftCall :: FunctionCall where
  "overdraftCall =
     \<lparr> fc_id = ''call-11'', fc_name = ''transferFunds'',
       fc_args = \<lparr> arg_accountType = [], arg_amount = 950, arg_fromAccount = ''checking'',
                   arg_toAccount = ''savings'', arg_limit = None \<rparr> \<rparr>"

definition depositCall :: FunctionCall where
  "depositCall =
     \<lparr> fc_id = ''call-12'', fc_name = ''transferFunds'',
       fc_args = \<lparr> arg_accountType = [], arg_amount = 100, arg_fromAccount = ''savings'',
                   arg_toAccount = ''checking'', arg_limit = None \<rparr> \<rparr>"

definition largeSelfTransfer :: FunctionCall where
  "largeSelfTransfer =
     \<lparr> fc_id = ''call-13'', fc_name = ''transferFunds'',
       fc_args = \<lparr> arg_accountType = [], arg_amount = 1050, arg_fromAccount = ''checking'',
                   arg_toAccount = ''checking'', arg_limit = None \<rparr> \<rparr>"

text \<open>A session in which the Agent has said \<open>Hel\<close> so far: the chunk is in the
  accumulator and, after the render, in the last transcript entry.\<close>

definition speakingState :: AppState where
  "speakingState =
     connectedState\<lparr>
       transcript := [\<lparr> msg_id = ''1700000000000'', sender = User, msg_text = [] \<rparr>,
                      \<lparr> msg_id = ''1700000000001'', sender = Agent, msg_text = ''Hel'' \<rparr>],
       currentOutputTranscriptionRef := ''Hel'' \<rparr>"

definition chunkMessage :: LiveServerMessage where
  "chunkMessage =
     \<lparr> toolCall = None,
       serverContent = Some \<lparr> outputTranscription = Some ''lo'', inputTranscription = None,
                              turnComplete = False \<rparr> \<rparr>"

definition lastChunkMessage :: LiveServerMessage where
  "lastChunkMessage =
     \<lparr> toolCall = None,
       serverContent = Some \<lparr> outputTranscription = Some ''lo'', inputTranscription = None,
                              turnComplete = True \<rparr> \<rparr>"



section \<open>Auxiliary facts\<close>

lemma generateRandomTransactions_loop_eq:
  "generateRandomTransactions_loop entry accountType count i acc =
     acc @ map (entry accountType) [i..<count]"
proof (induction entry accountType count i acc
       rule: generateRandomTransactions_loop.induct)
  case (1 entry accountType count i acc)
  show ?case
  proof (cases "i < count")
    case True
    have "generateRandomTransactions_loop entry accountType count i acc =
          generateRandomTransactions_loop entry accountType count (Suc i)
            (acc @ [entry accountType i])"
      using True by (subst generateRandomTransactions_loop.simps) (simp only: if_True)
    also have "\<dots> = (acc @ [entry accountType i]) @ map (entry accountType) [Suc i..<count]"
      using True by (rule "1.IH")
    also have "\<dots> = acc @ map (entry accountType) [i..<count]"
      by (simp only: upt_conv_Cons [OF True] list.map append_assoc append_Cons append_Nil)
    finally show ?thesis .
  next
    case False
    then show ?thesis
      by (subst generateRandomTransactions_loop.simps) simp
  qed
qed


lemma generateRandomTransactions_eq:
  "generateRandomTransactions entry accountType count = map (entry accountType) [0..<count]"
  by (simp add: generateRandomTransactions_def generateRandomTransactions_loop_eq)

lemma length_mockData:
  "length (md_checking (mockData entry)) = 20" "length (md_savings (mockData entry)) = 15"
  by (simp_all add: mockData_def generateRandomTransactions_eq)



lemma relativeIndex_0: "relativeIndex len 0 = 0"
  by (simp add: relativeIndex_def toIntegerOrInfinity_def)

lemma relativeIndex_nonneg: "0 \<le> x \<Longrightarrow> relativeIndex len x = min (nat \<lfloor>x\<rfloor>) len"
proof -
  assume "0 \<le> x"
  then have f: "0 \<le> \<lfloor>x\<rfloor>" by simp
  have "nat (min \<lfloor>x\<rfloor> (int len)) = min (nat \<lfloor>x\<rfloor>) len"
    using f by linarith
  then show ?thesis
    using \<open>0 \<le> x\<close> by (simp add: relativeIndex_def toIntegerOrInfinity_def Let_def)
qed

lemma relativeIndex_negative:
  assumes "x \<le> - 1"
  shows "relativeIndex len x = len - nat (- \<lceil>x\<rceil>)"
proof -
  have c: "\<lceil>x\<rceil> < 0" using assms by (simp add: ceiling_less_iff)
  have "nat (max (int len + \<lceil>x\<rceil>) 0) = len - nat (- \<lceil>x\<rceil>)"
    using c by linarith
  then show ?thesis
    using assms c by (simp add: relativeIndex_def toIntegerOrInfinity_def Let_def)
qed

lemma slice_0: "slice xs 0 stop = take (relativeIndex (length xs) stop) xs"
  by (simp add: slice_def relativeIndex_0)

lemma slice_0_nonneg: "0 \<le> l \<Longrightarrow> slice xs 0 l = take (min (nat \<lfloor>l\<rfloor>) (length xs)) xs"
  by (simp add: slice_0 relativeIndex_nonneg)

lemma slice_0_neg1: "slice xs 0 (- 1) = butlast xs"
proof -
  have "\<lceil>- 1 :: real\<rceil> = - 1"
    using ceiling_of_int [of "- 1", where ?'a = real] by simp
  then show ?thesis
    by (simp add: slice_0 relativeIndex_negative butlast_conv_take)
qed


subsection \<open>Transfers\<close>

lemma transferUpdater_distinct:
  "fromKey \<noteq> toKey \<Longrightarrow>
   accountsGet (transferUpdater fromKey toKey amount prev) fromKey = accountsGet prev fromKey - amount
   \<and> accountsGet (transferUpdater fromKey toKey amount prev) toKey = accountsGet prev toKey + amount"
  by (cases fromKey; cases toKey) (simp_all add: transferUpdater_def)

lemma transferUpdater_same:
  "transferUpdater k k amount prev = accountsSet prev k (accountsGet prev k + amount)"
  by (cases k) (simp_all add: transferUpdater_def)

lemma transferFunds_valid:
  assumes "fc_name fc = ''transferFunds''"
      and "accountKey (toLowerCase (arg_fromAccount (fc_args fc))) = Some fromKey"
      and "accountKey (toLowerCase (arg_toAccount (fc_args fc))) = Some toKey"
  shows "handleFunctionCall md accs st fc =
     (if accountsGet accs fromKey < arg_amount (fc_args fc)
      then Inr (st, ErrorResult ''Insufficient funds.'' (Some (accountsGet accs fromKey)))
      else Inr (st\<lparr>accounts := transferUpdater fromKey toKey (arg_amount (fc_args fc)) (accounts st)\<rparr>,
                TransferResult (toLowerCase (arg_fromAccount (fc_args fc)))
                  (toLowerCase (arg_toAccount (fc_args fc))) (arg_amount (fc_args fc))
                  (accountsGet accs fromKey - arg_amount (fc_args fc))))"
  using assms by (simp add: handleFunctionCall_def Let_def)

lemma transferFunds_invalid:
  assumes "fc_name fc = ''transferFunds''"
      and "accountKey (toLowerCase (arg_fromAccount (fc_args fc))) = None
           \<or> accountKey (toLowerCase (arg_toAccount (fc_args fc))) = None"
  shows "handleFunctionCall md accs st fc = Inr (st, ErrorResult ''Invalid account specified.'' None)"
  using assms by (auto simp add: handleFunctionCall_def Let_def split: option.splits)

text \<open>A transfer between the two different accounts debits the one and credits the
  other; the balance check and the reported \<open>newFromBalance\<close> use the captured
  accounts value \<open>accs\<close>.\<close>

lemma transferFunds_between_distinct_accounts:
  assumes "fc_name fc = ''transferFunds''"
      and "accountKey (toLowerCase (arg_fromAccount (fc_args fc))) = Some fromKey"
      and "accountKey (toLowerCase (arg_toAccount (fc_args fc))) = Some toKey"
      and "fromKey \<noteq> toKey"
      and "arg_amount (fc_args fc) \<le> accountsGet accs fromKey"
  shows "\<exists>st'. handleFunctionCall md accs st fc =
           Inr (st', TransferResult (toLowerCase (arg_fromAccount (fc_args fc)))
                  (toLowerCase (arg_toAccount (fc_args fc))) (arg_amount (fc_args fc))
                  (accountsGet accs fromKey - arg_amount (fc_args fc)))
         \<and> st' = st\<lparr>accounts := accounts st'\<rparr>
         \<and> accountsGet (accounts st') fromKey = accountsGet (accounts st) fromKey - arg_amount (fc_args fc)
         \<and> accountsGet (accounts st') toKey = accountsGet (accounts st) toKey + arg_amount (fc_args fc)"
  using assms transferUpdater_distinct [of fromKey toKey]
  by (simp add: transferFunds_valid)

text \<open>
  All function calls of one run of \<open>handleToolCall\<close> read the accounts value of the
  callback's render, while the updaters act on the pending state: after a transfer of
  100 out of checking, a balance lookup in the same tool call reports the 1000 of the
  render, and the pending state holds 900.
\<close>

lemma handleToolCall_transfer_then_balance:
  "handleToolCall (mockData sampleEntry) initialAccounts connectedState
     [transferCall, checkingBalanceCall] =
   (connectedState\<lparr>accounts := \<lparr> checking = 900, savings = 5100 \<rparr>\<rparr>,
    [\<lparr> resp_id = ''call-9'', resp_name = ''transferFunds'',
       resp_result = TransferResult ''checking'' ''savings'' 100 900 \<rparr>,
     \<lparr> resp_id = ''call-10'', resp_name = ''getAccountBalance'',
       resp_result = BalanceResult 1000 \<rparr>],
    None)"
proof -
  have l: "toLowerCase ''Checking'' = ''checking''" "toLowerCase ''Savings'' = ''savings''"
    "toLowerCase ''checking'' = ''checking''"
    by (simp_all add: toLowerCase_def toLowerChar_def)
  have t: "handleFunctionCall (mockData sampleEntry) initialAccounts connectedState transferCall =
      Inr (connectedState\<lparr>accounts := \<lparr> checking = 900, savings = 5100 \<rparr>\<rparr>,
           TransferResult ''checking'' ''savings'' 100 900)"
    using l by (simp add: handleFunctionCall_def transferCall_def accountKey_def
          transferUpdater_def initialAccounts_def connectedState_def initialState_def Let_def)
  have b: "handleFunctionCall (mockData sampleEntry) initialAccounts st checkingBalanceCall =
      Inr (st, BalanceResult 1000)" for st
    using l by (simp add: handleFunctionCall_def checkingBalanceCall_def accountKey_def
          initialAccounts_def Let_def)
  have s: "sessionPromiseRef connectedState = Some 1"
    by (simp add: connectedState_def)
  show ?thesis
    by (simp add: handleToolCall_def s t b, simp add: transferCall_def checkingBalanceCall_def)
qed

text \<open>The balance lookup answers from the accounts value of the handler's closure,
  whatever the pending state is.\<close>

lemma getAccountBalance_reads_closure:
  assumes "fc_name fc = ''getAccountBalance''"
      and "accountKey (toLowerCase (arg_accountType (fc_args fc))) = Some k"
  shows "handleFunctionCall md accs st fc = Inr (st, BalanceResult (accountsGet accs k))"
  using assms by (simp add: handleFunctionCall_def Let_def)

subsection \<open>The loop of \<open>handleToolCall\<close>\<close>

text \<open>The responses already handed over stay in front of the later ones; a prefix of the
  function calls that completes hands the loop on to the rest, and a prefix that throws
  ends it.\<close>

lemma handleToolCall_loop_sent:
  "handleToolCall_loop md accs st fcs sent =
     (case handleToolCall_loop md accs st fcs [] of
        (st', out, exn) \<Rightarrow> (st', sent @ out, exn))"
proof (induction fcs arbitrary: st sent)
  case Nil
  then show ?case by simp
next
  case (Cons fc fcs)
  show ?case
  proof (cases "handleFunctionCall md accs st fc")
    case (Inl e)
    then show ?thesis by simp
  next
    case (Inr p)
    obtain st' result where p: "p = (st', result)" by (cases p)
    let ?r = "\<lparr> resp_id = fc_id fc, resp_name = fc_name fc, resp_result = result \<rparr>"
    have a: "handleToolCall_loop md accs st (fc # fcs) sent
               = handleToolCall_loop md accs st' fcs (sent @ [?r])"
      using Inr p by simp
    have b: "handleToolCall_loop md accs st (fc # fcs) []
               = handleToolCall_loop md accs st' fcs [?r]"
      using Inr p by simp
    show ?thesis
      unfolding a b
      by (subst Cons.IH [of st' "sent @ [?r]"], subst Cons.IH [of st' "[?r]"])
         (simp split: prod.splits)
  qed
qed

lemma handleToolCall_loop_append:
  "handleToolCall_loop md accs st (pre @ post) sent =
     (case handleToolCall_loop md accs st pre sent of
        (st1, sent1, None) \<Rightarrow> handleToolCall_loop md accs st1 post sent1
      | (st1, sent1, Some e) \<Rightarrow> (st1, sent1, Some e))"
proof (induction pre arbitrary: st sent)
  case Nil
  then show ?case by simp
next
  case (Cons fc pre)
  show ?case
  proof (cases "handleFunctionCall md accs st fc")
    case (Inl e)
    then show ?thesis by simp
  next
    case (Inr p)
    obtain st' result where p: "p = (st', result)" by (cases p)
    show ?thesis
      using Inr p Cons.IH by simp
  qed
qed

lemma handleMessage_toolCall:
  "handleMessage md accs st \<lparr> toolCall = Some fcs, serverContent = None \<rparr> =
     handleToolCall md accs st fcs"
  by (cases "handleToolCall md accs st fcs" rule: prod_cases3)
     (simp add: handleMessage_def split: option.splits)

subsection \<open>The sample calls\<close>

lemma toLowerCase_samples:
  "toLowerCase ''checking'' = ''checking''" "toLowerCase ''savings'' = ''savings''"
  "toLowerCase ''Checking'' = ''checking''" "toLowerCase ''Savings'' = ''savings''"
  "toLowerCase ''constructor'' = ''constructor''"
  by (simp_all add: toLowerCase_def toLowerChar_def)

lemma accountKey_samples:
  "accountKey ''checking'' = Some Checking" "accountKey ''savings'' = Some Savings"
  by (simp_all add: accountKey_def)

lemma sessionPromiseRef_connectedState: "sessionPromiseRef connectedState = Some 1"
  by (simp add: connectedState_def)

lemma sessionPromiseRef_accounts_update:
  "sessionPromiseRef (connectedState\<lparr>accounts := a\<rparr>) = Some 1"
  by (simp add: connectedState_def)

lemma accounts_connectedState: "accounts connectedState = initialAccounts"
  by (simp add: connectedState_def initialState_def)

lemma transferCall_result:
  "handleFunctionCall md initialAccounts connectedState transferCall =
     Inr (connectedState\<lparr>accounts := \<lparr> checking = 900, savings = 5100 \<rparr>\<rparr>,
          TransferResult ''checking'' ''savings'' 100 900)"
  by (simp add: handleFunctionCall_def transferCall_def toLowerCase_samples accountKey_samples
        transferUpdater_def initialAccounts_def connectedState_def initialState_def Let_def)

lemma checkingBalanceCall_result:
  "handleFunctionCall md initialAccounts st checkingBalanceCall = Inr (st, BalanceResult 1000)"
  by (simp add: handleFunctionCall_def checkingBalanceCall_def toLowerCase_samples
        accountKey_samples initialAccounts_def Let_def)

lemma overdraftCall_result:
  "handleFunctionCall md initialAccounts
     (connectedState\<lparr>accounts := \<lparr> checking = 900, savings = 5100 \<rparr>\<rparr>) overdraftCall =
     Inr (connectedState\<lparr>accounts := \<lparr> checking = - 50, savings = 6050 \<rparr>\<rparr>,
          TransferResult ''checking'' ''savings'' 950 50)"
  by (simp add: handleFunctionCall_def overdraftCall_def toLowerCase_samples accountKey_samples
        transferUpdater_def initialAccounts_def connectedState_def initialState_def Let_def)

lemma depositCall_result:
  "handleFunctionCall md initialAccounts connectedState depositCall =
     Inr (connectedState\<lparr>accounts := \<lparr> checking = 1100, savings = 4900 \<rparr>\<rparr>,
          TransferResult ''savings'' ''checking'' 100 4900)"
  by (simp add: handleFunctionCall_def depositCall_def toLowerCase_samples accountKey_samples
        transferUpdater_def initialAccounts_def connectedState_def initialState_def Let_def)

lemma largeSelfTransfer_result:
  "handleFunctionCall md initialAccounts st largeSelfTransfer =
     Inr (st, ErrorResult ''Insufficient funds.'' (Some 1000))"
  by (simp add: handleFunctionCall_def largeSelfTransfer_def toLowerCase_samples
        accountKey_samples initialAccounts_def Let_def)

subsection \<open>Transaction history\<close>

lemma getMockTransactionHistory_own:
  assumes "accountType = ''checking'' \<and> stored = md_checking md
           \<or> accountType = ''savings'' \<and> stored = md_savings md"
  shows "getMockTransactionHistory md accountType limitArg =
           Inr (slice stored 0 (case limitArg of None \<Rightarrow> 10 | Some l \<Rightarrow> l))"
  using assms by (auto simp add: getMockTransactionHistory_def mockData_get_def)

lemma md_checking_sample:
  "md_checking (mockData sampleEntry) = map (sampleEntry ''checking'') [0..<20]"
  by (simp only: mockData_def generateRandomTransactions_eq MockData.simps)

lemma md_savings_sample:
  "md_savings (mockData sampleEntry) = map (sampleEntry ''savings'') [0..<15]"
  by (simp only: mockData_def generateRandomTransactions_eq MockData.simps)

lemma getMockTransactionHistory_unknown_key:
  assumes "accountType \<notin> {''checking'', ''savings''}"
      and "accountType \<notin> set objectPrototypeProperties"
  shows "getMockTransactionHistory md accountType limitArg = Inr []"
  using assms by (simp add: getMockTransactionHistory_def mockData_get_def)

lemma getMockTransactionHistory_inherited_key:
  assumes "accountType \<in> set objectPrototypeProperties"
  shows "getMockTransactionHistory md accountType limitArg = Inl TypeError"
proof -
  have "accountType \<noteq> ''checking''" "accountType \<noteq> ''savings''"
    using assms by (auto simp add: objectPrototypeProperties_def)
  then show ?thesis
    using assms by (simp add: getMockTransactionHistory_def mockData_get_def)
qed

text \<open>For the two account types and a limit that is absent or not negative, the call
  returns, and the list it returns is no longer than the limit and no longer than the
  stored list (20 entries for checking, 15 for savings).\<close>

lemma getMockTransactionHistory_length_bounds:
  assumes "accountType = ''checking'' \<and> count = 20 \<or> accountType = ''savings'' \<and> count = 15"
      and "limitArg = None \<and> limit = 10 \<or> limitArg = Some limit \<and> 0 \<le> limit"
  shows "\<exists>history. getMockTransactionHistory (mockData entry) accountType limitArg = Inr history
           \<and> real (length history) \<le> limit \<and> length history \<le> count"
proof -
  obtain stored where st:
    "accountType = ''checking'' \<and> stored = md_checking (mockData entry)
     \<or> accountType = ''savings'' \<and> stored = md_savings (mockData entry)"
    and len: "length stored = count"
    using assms(1) length_mockData [of entry] by auto
  have l0: "0 \<le> limit" and lim: "(case limitArg of None \<Rightarrow> 10 | Some l \<Rightarrow> l) = limit"
    using assms(2) by auto
  have "real (nat \<lfloor>limit\<rfloor>) \<le> limit"
    using l0 by (simp add: of_nat_nat)
  then have "real (min (nat \<lfloor>limit\<rfloor>) (length stored)) \<le> limit"
    by (simp add: min_def)
  then show ?thesis
    using getMockTransactionHistory_own [OF st, of limitArg] lim l0 len
    by (simp add: slice_0_nonneg)
qed

subsection \<open>Transcript updates\<close>

lemma replaceLastText_snoc:
  "replaceLastText who txt (pre @ [l]) =
     (if sender l = who then pre @ [l\<lparr>msg_text := txt\<rparr>] else pre @ [l])"
  by (simp add: replaceLastText_def slice_0_neg1)

lemma replaceLastText_other:
  "prev = [] \<or> sender (last prev) \<noteq> who \<Longrightarrow> replaceLastText who txt prev = prev"
  by (auto simp add: replaceLastText_def)

text \<open>A transcription chunk in a message without \<open>turnComplete\<close>: the accumulator
  is extended, and the updater, run at the render, finds the extended accumulator.\<close>

lemma handleMessage_chunk_without_turnComplete:
  "handleMessage md accs st
     \<lparr> toolCall = None,
       serverContent = Some \<lparr> outputTranscription = Some chunk, inputTranscription = None,
                              turnComplete = False \<rparr> \<rparr> =
   (st\<lparr>currentOutputTranscriptionRef := currentOutputTranscriptionRef st @ chunk,
       transcript := replaceLastText Agent (currentOutputTranscriptionRef st @ chunk)
                       (transcript st)\<rparr>,
    [], None)"
  by (simp add: handleMessage_def handleServerContent_def onOutputTranscription_def
        runUpdater_def)


section \<open>Transfers (\<open>transferFunds\<close>)\<close>

text \<open>
  C1.  Claim: for every \<open>transferFunds\<close> call whose lower-cased account names are both
  valid and whose amount does not exceed the balance of the from-account, the amount is
  subtracted from the from-account and added to the to-account, and \<open>newFromBalance\<close> is
  the old balance of the from-account minus the amount.

  The code at a transfer of 100 from \<open>checking\<close> to \<open>checking\<close>, with the initial
  accounts (1000 and 5000): both names pass \<open>hasOwnProperty\<close>, the balance covers the
  amount, and the object literal writes \<open>checking\<close> twice, the credit last.  The account
  ends at 1100, not debited, while the result reports \<open>newFromBalance = 900\<close>.
\<close>

theorem transferFunds_self_transfer_credits:
  "handleFunctionCall (mockData sampleEntry) initialAccounts initialState selfTransfer =
     Inr (initialState\<lparr>accounts := \<lparr> checking = 1100, savings = 5000 \<rparr>\<rparr>,
          TransferResult ''checking'' ''checking'' 100 900)"
  by (simp add: handleFunctionCall_def selfTransfer_def toLowerCase_def toLowerChar_def
        accountKey_def initialAccounts_def initialState_def transferUpdater_def Let_def)

text \<open>
  C2.  Claim: a \<open>transferFunds\<close> call whose lower-cased \<open>fromAccount\<close> and \<open>toAccount\<close>
  are the same valid account, and whose amount is at most the balance of that account,
  reports success and leaves the account at its old balance plus the amount.

  The code in a session started with the initial accounts (1000 and 5000): a first
  message transfers 100 from \<open>savings\<close> to \<open>checking\<close>, so the state holds 1100 for
  checking.  A second message asks to transfer 1050 from \<open>checking\<close> to \<open>checking\<close>.  The
  balance of 1100 covers the amount, but the handler of the session tests the
  \<open>accounts\<close> of its closure, still 1000, and answers \<open>Insufficient funds.\<close> with
  \<open>currentBalance = 1000\<close>; the state is left as it was.
\<close>

theorem self_transfer_refused_after_deposit:
  "sessionMessages (mockData sampleEntry) connectedState
     [\<lparr> toolCall = Some [depositCall], serverContent = None \<rparr>,
      \<lparr> toolCall = Some [largeSelfTransfer], serverContent = None \<rparr>] =
   (connectedState\<lparr>accounts := \<lparr> checking = 1100, savings = 4900 \<rparr>\<rparr>,
    [\<lparr> resp_id = ''call-12'', resp_name = ''transferFunds'',
       resp_result = TransferResult ''savings'' ''checking'' 100 4900 \<rparr>,
     \<lparr> resp_id = ''call-13'', resp_name = ''transferFunds'',
       resp_result = ErrorResult ''Insufficient funds.'' (Some 1000) \<rparr>])
   \<and> handleToolCall (mockData sampleEntry) (accounts connectedState)
         (connectedState\<lparr>accounts := \<lparr> checking = 1100, savings = 4900 \<rparr>\<rparr>)
         [largeSelfTransfer] =
       (connectedState\<lparr>accounts := \<lparr> checking = 1100, savings = 4900 \<rparr>\<rparr>,
        [\<lparr> resp_id = ''call-13'', resp_name = ''transferFunds'',
           resp_result = ErrorResult ''Insufficient funds.'' (Some 1000) \<rparr>],
        None)"
proof -
  let ?st1 = "connectedState\<lparr>accounts := \<lparr> checking = 1100, savings = 4900 \<rparr>\<rparr>"
  have first: "handleToolCall (mockData sampleEntry) initialAccounts connectedState [depositCall] =
      (?st1, [\<lparr> resp_id = ''call-12'', resp_name = ''transferFunds'',
                resp_result = TransferResult ''savings'' ''checking'' 100 4900 \<rparr>], None)"
    by (simp add: handleToolCall_def sessionPromiseRef_connectedState depositCall_result,
        simp add: depositCall_def)
  have second: "handleToolCall (mockData sampleEntry) initialAccounts ?st1 [largeSelfTransfer] =
      (?st1, [\<lparr> resp_id = ''call-13'', resp_name = ''transferFunds'',
                resp_result = ErrorResult ''Insufficient funds.'' (Some 1000) \<rparr>], None)"
    by (simp add: handleToolCall_def sessionPromiseRef_accounts_update largeSelfTransfer_result,
        simp add: largeSelfTransfer_def)
  show ?thesis
    by (simp add: sessionMessages_def accounts_connectedState handleMessage_toolCall first second)
qed

text \<open>
  C5.  Claim: a \<open>transferFunds\<close> call returns an error result exactly when a lower-cased
  account name is not a valid key or the current balance of the from-account is strictly
  less than the amount.

  The code in a session started with the initial accounts: a first message transfers
  100 from \<open>Checking\<close> to \<open>Savings\<close>, so the state holds 900 for checking.  A second
  message asks to transfer 950 from \<open>checking\<close> to \<open>savings\<close>.  The balance of 900 is
  less than the amount, but the handler of the session tests the \<open>accounts\<close> of its
  closure, still 1000: the call succeeds, reports \<open>newFromBalance = 50\<close> and leaves
  checking at -50.
\<close>

theorem transfer_beyond_balance_after_transfer:
  "sessionMessages (mockData sampleEntry) connectedState
     [\<lparr> toolCall = Some [transferCall], serverContent = None \<rparr>,
      \<lparr> toolCall = Some [overdraftCall], serverContent = None \<rparr>] =
   (connectedState\<lparr>accounts := \<lparr> checking = - 50, savings = 6050 \<rparr>\<rparr>,
    [\<lparr> resp_id = ''call-9'', resp_name = ''transferFunds'',
       resp_result = TransferResult ''checking'' ''savings'' 100 900 \<rparr>,
     \<lparr> resp_id = ''call-11'', resp_name = ''transferFunds'',
       resp_result = TransferResult ''checking'' ''savings'' 950 50 \<rparr>])
   \<and> handleToolCall (mockData sampleEntry) (accounts connectedState)
         (connectedState\<lparr>accounts := \<lparr> checking = 900, savings = 5100 \<rparr>\<rparr>)
         [overdraftCall] =
       (connectedState\<lparr>accounts := \<lparr> checking = - 50, savings = 6050 \<rparr>\<rparr>,
        [\<lparr> resp_id = ''call-11'', resp_name = ''transferFunds'',
           resp_result = TransferResult ''checking'' ''savings'' 950 50 \<rparr>],
        None)"
proof -
  let ?st1 = "connectedState\<lparr>accounts := \<lparr> checking = 900, savings = 5100 \<rparr>\<rparr>"
  have first: "handleToolCall (mockData sampleEntry) initialAccounts connectedState [transferCall] =
      (?st1, [\<lparr> resp_id = ''call-9'', resp_name = ''transferFunds'',
                resp_result = TransferResult ''checking'' ''savings'' 100 900 \<rparr>], None)"
    by (simp add: handleToolCall_def sessionPromiseRef_connectedState transferCall_result,
        simp add: transferCall_def)
  have second: "handleToolCall (mockData sampleEntry) initialAccounts ?st1 [overdraftCall] =
      (connectedState\<lparr>accounts := \<lparr> checking = - 50, savings = 6050 \<rparr>\<rparr>,
       [\<lparr> resp_id = ''call-11'', resp_name = ''transferFunds'',
          resp_result = TransferResult ''checking'' ''savings'' 950 50 \<rparr>], None)"
    by (simp add: handleToolCall_def sessionPromiseRef_accounts_update overdraftCall_result,
        simp add: overdraftCall_def)
  show ?thesis
    by (simp add: sessionMessages_def accounts_connectedState handleMessage_toolCall first second)
qed


section \<open>Balance lookup (\<open>getAccountBalance\<close>)\<close>

text \<open>
  C3.  Claim: a \<open>getAccountBalance\<close> call on \<open>checking\<close> or \<open>savings\<close> returns exactly the
  current in-memory balance of that account.

  The code in a session started with the initial accounts: a first message transfers
  100 from \<open>Checking\<close> to \<open>Savings\<close>, so the state holds 900 for checking.  A second
  message asks for the balance of \<open>checking\<close>.  The handler of the session reads the
  \<open>accounts\<close> of its closure and answers 1000.
\<close>

theorem balance_lookup_after_transfer:
  "sessionMessages (mockData sampleEntry) connectedState
     [\<lparr> toolCall = Some [transferCall], serverContent = None \<rparr>,
      \<lparr> toolCall = Some [checkingBalanceCall], serverContent = None \<rparr>] =
   (connectedState\<lparr>accounts := \<lparr> checking = 900, savings = 5100 \<rparr>\<rparr>,
    [\<lparr> resp_id = ''call-9'', resp_name = ''transferFunds'',
       resp_result = TransferResult ''checking'' ''savings'' 100 900 \<rparr>,
     \<lparr> resp_id = ''call-10'', resp_name = ''getAccountBalance'',
       resp_result = BalanceResult 1000 \<rparr>])
   \<and> handleToolCall (mockData sampleEntry) (accounts connectedState)
         (connectedState\<lparr>accounts := \<lparr> checking = 900, savings = 5100 \<rparr>\<rparr>)
         [checkingBalanceCall] =
       (connectedState\<lparr>accounts := \<lparr> checking = 900, savings = 5100 \<rparr>\<rparr>,
        [\<lparr> resp_id = ''call-10'', resp_name = ''getAccountBalance'',
           resp_result = BalanceResult 1000 \<rparr>],
        None)"
proof -
  let ?st1 = "connectedState\<lparr>accounts := \<lparr> checking = 900, savings = 5100 \<rparr>\<rparr>"
  have first: "handleToolCall (mockData sampleEntry) initialAccounts connectedState [transferCall] =
      (?st1, [\<lparr> resp_id = ''call-9'', resp_name = ''transferFunds'',
                resp_result = TransferResult ''checking'' ''savings'' 100 900 \<rparr>], None)"
    by (simp add: handleToolCall_def sessionPromiseRef_connectedState transferCall_result,
        simp add: transferCall_def)
  have second: "handleToolCall (mockData sampleEntry) initialAccounts ?st1 [checkingBalanceCall] =
      (?st1, [\<lparr> resp_id = ''call-10'', resp_name = ''getAccountBalance'',
                resp_result = BalanceResult 1000 \<rparr>], None)"
    by (simp add: handleToolCall_def sessionPromiseRef_accounts_update checkingBalanceCall_result,
        simp add: checkingBalanceCall_def)
  show ?thesis
    by (simp add: sessionMessages_def accounts_connectedState handleMessage_toolCall first second)
qed


section \<open>Transaction history (\<open>getTransactionHistory\<close>, \<open>getMockTransactionHistory\<close>)\<close>

text \<open>
  C4, as amended.  For every \<open>getTransactionHistory\<close> call on a valid lower-cased
  \<open>accountType\<close> whose \<open>limit\<close> is absent or not negative, \<open>transactions\<close> is set to the
  first \<open>min n count\<close> entries of the stored list of that account, where \<open>count\<close> is the
  length of the stored list and \<open>n\<close> is 10 for an absent limit and the limit, cut to an
  integer, otherwise; \<open>viewingHistory\<close> is set to the account name as requested (not
  lower-cased); and \<open>transactionsRetrieved\<close> is the length of that prefix.
\<close>

theorem getTransactionHistory_prefix:
  assumes "fc_name fc = ''getTransactionHistory''"
      and "toLowerCase (arg_accountType (fc_args fc)) = ''checking'' \<and> stored = md_checking md
           \<or> toLowerCase (arg_accountType (fc_args fc)) = ''savings'' \<and> stored = md_savings md"
      and "arg_limit (fc_args fc) = None \<and> n = 10
           \<or> (\<exists>l. arg_limit (fc_args fc) = Some l \<and> 0 \<le> l \<and> n = nat \<lfloor>l\<rfloor>)"
  shows "handleFunctionCall md accs st fc =
           Inr (st\<lparr>transactions := take (min n (length stored)) stored,
                   viewingHistory := Some (arg_accountType (fc_args fc))\<rparr>,
                HistoryResult (length (take (min n (length stored)) stored)))"
proof -
  have "slice stored 0 (case arg_limit (fc_args fc) of None \<Rightarrow> 10 | Some l \<Rightarrow> l)
        = take (min n (length stored)) stored"
    using assms(3) by (auto simp add: slice_0_nonneg)
  then show ?thesis
    using assms(1) getMockTransactionHistory_own [OF assms(2), of "arg_limit (fc_args fc)"]
    by (simp add: handleFunctionCall_def Let_def)
qed

text \<open>Instance: the first 3 entries of \<open>Savings\<close>.\<close>

theorem getTransactionHistory_prefix_witness:
  "fc_name historyCall = ''getTransactionHistory''
   \<and> toLowerCase (arg_accountType (fc_args historyCall)) = ''savings''
   \<and> arg_limit (fc_args historyCall) = Some 3
   \<and> handleFunctionCall (mockData sampleEntry) initialAccounts initialState historyCall =
       Inr (initialState\<lparr>transactions := map (sampleEntry ''savings'') [0, 1, 2],
                          viewingHistory := Some ''Savings''\<rparr>,
            HistoryResult 3)"
proof -
  have n: "fc_name historyCall = ''getTransactionHistory''"
    by (simp add: historyCall_def)
  have k: "toLowerCase (arg_accountType (fc_args historyCall)) = ''savings''"
    by (simp add: historyCall_def toLowerCase_def toLowerChar_def)
  have l: "arg_limit (fc_args historyCall) = Some 3"
    by (simp add: historyCall_def)
  have a: "toLowerCase (arg_accountType (fc_args historyCall)) = ''checking''
             \<and> md_savings (mockData sampleEntry) = md_checking (mockData sampleEntry)
           \<or> toLowerCase (arg_accountType (fc_args historyCall)) = ''savings''
             \<and> md_savings (mockData sampleEntry) = md_savings (mockData sampleEntry)"
    using k by simp
  have b: "arg_limit (fc_args historyCall) = None \<and> (3::nat) = 10
           \<or> (\<exists>l. arg_limit (fc_args historyCall) = Some l \<and> 0 \<le> l \<and> (3::nat) = nat \<lfloor>l\<rfloor>)"
    using l by simp
  have t: "take 3 (map (sampleEntry ''savings'') [0..<15]) = map (sampleEntry ''savings'') [0, 1, 2]"
    by (simp add: take_map upt_rec_numeral numeral_2_eq_2 numeral_3_eq_3)
  show ?thesis
    using getTransactionHistory_prefix [OF n a b, of initialAccounts initialState] n k l t
    by (simp add: md_savings_sample historyCall_def)
qed

text \<open>
  C4 as stated fails for a negative limit: \<open>slice(0, -3)\<close> drops the last three entries,
  so a call with \<open>limit = -3\<close> on \<open>checking\<close> stores and reports 17 entries, not the first
  \<open>min(-3, 20)\<close>.
\<close>

theorem getTransactionHistory_negative_limit:
  "handleFunctionCall (mockData sampleEntry) initialAccounts initialState negativeLimitCall =
     Inr (initialState\<lparr>transactions := map (sampleEntry ''checking'') [0..<17],
                        viewingHistory := Some ''checking''\<rparr>,
          HistoryResult 17)
   \<and> map (sampleEntry ''checking'') [0..<17]
       \<noteq> take (nat (min (- 3) (int (length (md_checking (mockData sampleEntry))))))
              (md_checking (mockData sampleEntry))"
proof -
  have c: "\<lceil>- 3 :: real\<rceil> = - 3"
    using ceiling_of_int [of "- 3", where ?'a = real] by simp
  have s: "slice (md_checking (mockData sampleEntry)) 0 (- 3) = map (sampleEntry ''checking'') [0..<17]"
    by (simp add: slice_0 relativeIndex_negative c md_checking_sample take_map)
  have g: "getMockTransactionHistory (mockData sampleEntry) ''checking'' (Some (- 3))
           = Inr (map (sampleEntry ''checking'') [0..<17])"
    using getMockTransactionHistory_own [of "''checking''" "md_checking (mockData sampleEntry)"
        "mockData sampleEntry" "Some (- 3)"] s by simp
  have "toLowerCase ''checking'' = ''checking''"
    by (simp add: toLowerCase_def toLowerChar_def)
  then have "handleFunctionCall (mockData sampleEntry) initialAccounts initialState negativeLimitCall =
     Inr (initialState\<lparr>transactions := map (sampleEntry ''checking'') [0..<17],
                        viewingHistory := Some ''checking''\<rparr>,
          HistoryResult 17)"
    using g by (simp add: handleFunctionCall_def negativeLimitCall_def Let_def)
  moreover have "map (sampleEntry ''checking'') [0..<17]
       \<noteq> take (nat (min (- 3) (int (length (md_checking (mockData sampleEntry))))))
              (md_checking (mockData sampleEntry))"
    by (simp add: md_checking_sample)
  ultimately show ?thesis by simp
qed

text \<open>
  C10.  Claim: \<open>getMockTransactionHistory\<close> is total over arbitrary strings and returns
  the empty array for every account type other than \<open>checking\<close> and \<open>savings\<close>.

  The code at the account type \<open>constructor\<close>: \<open>mockData['constructor']\<close> is the
  inherited \<open>Object\<close> function, which is not nullish and has no \<open>slice\<close>, so the call
  throws.  Through \<open>handleToolCall\<close>, which passes the lower-cased string of the model on
  unchecked, the exception ends the loop before any response is sent.
\<close>

theorem getMockTransactionHistory_constructor_throws:
  "getMockTransactionHistory (mockData sampleEntry) ''constructor'' None = Inl TypeError
   \<and> handleToolCall (mockData sampleEntry) initialAccounts connectedState [constructorHistoryCall]
       = (connectedState, [], Some TypeError)"
proof -
  have g: "getMockTransactionHistory (mockData sampleEntry) ''constructor'' None = Inl TypeError"
    by (rule getMockTransactionHistory_inherited_key) (simp add: objectPrototypeProperties_def)
  have "toLowerCase ''constructor'' = ''constructor''"
    by (simp add: toLowerCase_def toLowerChar_def)
  then have "handleFunctionCall (mockData sampleEntry) initialAccounts connectedState
               constructorHistoryCall = Inl TypeError"
    using g by (simp add: handleFunctionCall_def constructorHistoryCall_def Let_def)
  then have "handleToolCall (mockData sampleEntry) initialAccounts connectedState
               [constructorHistoryCall] = (connectedState, [], Some TypeError)"
    by (simp add: handleToolCall_def connectedState_def)
  with g show ?thesis by simp
qed


section \<open>Unknown function names\<close>

text \<open>
  C6, as amended.  Let the name of a function call be none of \<open>getAccountBalance\<close>,
  \<open>transferFunds\<close> and \<open>getTransactionHistory\<close>.  Then the \<open>switch\<close> yields the error
  result \<open>Unknown function call: <name>\<close> and leaves the whole state unchanged, whatever
  the accounts, the state and the mock data are.  If \<open>sessionPromiseRef.current\<close> is not
  \<open>null\<close> and the function calls before it in the same tool call (\<open>pre\<close>) have all
  completed, \<open>handleToolCall\<close> hands the response with that result to the session, right
  after the responses to the earlier calls, and goes on with the later calls (\<open>post\<close>)
  from the state the earlier calls have left.  If one of the earlier calls throws, the
  loop ends there and the call gets no response; if \<open>sessionPromiseRef.current\<close> is
  \<open>null\<close>, \<open>handleToolCall\<close> returns at once, and nothing is sent or changed.
\<close>

theorem unknown_function_call:
  assumes "fc_name fc \<notin> {''getAccountBalance'', ''transferFunds'', ''getTransactionHistory''}"
  shows "handleFunctionCall md accs st1 fc =
           Inr (st1, ErrorResult (''Unknown function call: '' @ fc_name fc) None)
       \<and> (sessionPromiseRef st \<noteq> None
            \<and> handleToolCall_loop md accs st pre [] = (st1, sent1, None) \<longrightarrow>
            handleToolCall md accs st (pre @ fc # post) =
              handleToolCall_loop md accs st1 post
                (sent1 @ [\<lparr> resp_id = fc_id fc, resp_name = fc_name fc,
                           resp_result =
                             ErrorResult (''Unknown function call: '' @ fc_name fc) None \<rparr>])
            \<and> (\<exists>st2 sent2 exn.
                  handleToolCall md accs st (pre @ fc # post) =
                    (st2,
                     sent1 @ \<lparr> resp_id = fc_id fc, resp_name = fc_name fc,
                              resp_result =
                                ErrorResult (''Unknown function call: '' @ fc_name fc) None \<rparr>
                           # sent2,
                     exn)))
       \<and> (sessionPromiseRef st \<noteq> None
            \<and> handleToolCall_loop md accs st pre [] = (st1, sent1, Some e) \<longrightarrow>
            handleToolCall md accs st (pre @ fc # post) = (st1, sent1, Some e))
       \<and> (sessionPromiseRef st = None \<longrightarrow>
            handleToolCall md accs st (pre @ fc # post) = (st, [], None))"
proof -
  let ?r = "\<lparr> resp_id = fc_id fc, resp_name = fc_name fc,
              resp_result = ErrorResult (''Unknown function call: '' @ fc_name fc) None \<rparr>"
  have h: "handleFunctionCall md accs s fc =
           Inr (s, ErrorResult (''Unknown function call: '' @ fc_name fc) None)" for s
    using assms by (simp add: handleFunctionCall_def)
  have reached: "handleToolCall md accs st (pre @ fc # post) =
                   handleToolCall_loop md accs st1 post (sent1 @ [?r])"
    if "sessionPromiseRef st \<noteq> None" "handleToolCall_loop md accs st pre [] = (st1, sent1, None)"
    using that by (auto simp add: handleToolCall_def handleToolCall_loop_append h)
  have sent: "\<exists>st2 sent2 exn. handleToolCall_loop md accs st1 post (sent1 @ [?r])
                = (st2, sent1 @ ?r # sent2, exn)"
    by (subst handleToolCall_loop_sent) (auto split: prod.splits)
  have thrown: "handleToolCall md accs st (pre @ fc # post) = (st1, sent1, Some e)"
    if "sessionPromiseRef st \<noteq> None" "handleToolCall_loop md accs st pre [] = (st1, sent1, Some e)"
    using that by (auto simp add: handleToolCall_def handleToolCall_loop_append)
  have guard: "handleToolCall md accs st (pre @ fc # post) = (st, [], None)"
    if "sessionPromiseRef st = None"
    using that by (simp add: handleToolCall_def)
  show ?thesis
    using h [of st1] reached sent thrown guard by metis
qed

text \<open>Instance: a call of \<open>closeAccount\<close> between a transfer and a balance lookup, in
  one tool call of a session.\<close>

theorem unknown_function_call_witness:
  "fc_name unknownCall \<notin> {''getAccountBalance'', ''transferFunds'', ''getTransactionHistory''}
   \<and> sessionPromiseRef connectedState \<noteq> None
   \<and> handleToolCall_loop (mockData sampleEntry) initialAccounts connectedState [transferCall] [] =
       (connectedState\<lparr>accounts := \<lparr> checking = 900, savings = 5100 \<rparr>\<rparr>,
        [\<lparr> resp_id = ''call-9'', resp_name = ''transferFunds'',
           resp_result = TransferResult ''checking'' ''savings'' 100 900 \<rparr>],
        None)
   \<and> handleToolCall (mockData sampleEntry) initialAccounts connectedState
         [transferCall, unknownCall, checkingBalanceCall] =
       (connectedState\<lparr>accounts := \<lparr> checking = 900, savings = 5100 \<rparr>\<rparr>,
        [\<lparr> resp_id = ''call-9'', resp_name = ''transferFunds'',
           resp_result = TransferResult ''checking'' ''savings'' 100 900 \<rparr>,
         \<lparr> resp_id = ''call-8'', resp_name = ''closeAccount'',
           resp_result = ErrorResult ''Unknown function call: closeAccount'' None \<rparr>,
         \<lparr> resp_id = ''call-10'', resp_name = ''getAccountBalance'',
           resp_result = BalanceResult 1000 \<rparr>],
        None)"
proof -
  let ?st1 = "connectedState\<lparr>accounts := \<lparr> checking = 900, savings = 5100 \<rparr>\<rparr>"
  let ?r1 = "\<lparr> resp_id = ''call-9'', resp_name = ''transferFunds'',
               resp_result = TransferResult ''checking'' ''savings'' 100 900 \<rparr>"
  have n: "fc_name unknownCall \<notin> {''getAccountBalance'', ''transferFunds'', ''getTransactionHistory''}"
    by (simp add: unknownCall_def)
  have s: "sessionPromiseRef connectedState \<noteq> None"
    by (simp add: sessionPromiseRef_connectedState)
  have pre: "handleToolCall_loop (mockData sampleEntry) initialAccounts connectedState [transferCall] []
             = (?st1, [?r1], None)"
    by (simp add: transferCall_result, simp add: transferCall_def)
  have "handleToolCall (mockData sampleEntry) initialAccounts connectedState
          ([transferCall] @ unknownCall # [checkingBalanceCall]) =
        handleToolCall_loop (mockData sampleEntry) initialAccounts ?st1 [checkingBalanceCall]
          ([?r1] @ [\<lparr> resp_id = fc_id unknownCall, resp_name = fc_name unknownCall,
                      resp_result =
                        ErrorResult (''Unknown function call: '' @ fc_name unknownCall) None \<rparr>])"
    using unknown_function_call [OF n, of "mockData sampleEntry" initialAccounts ?st1
        connectedState "[transferCall]" "[?r1]" "[checkingBalanceCall]"] s pre
    by blast
  then have "handleToolCall (mockData sampleEntry) initialAccounts connectedState
         [transferCall, unknownCall, checkingBalanceCall] =
       (?st1,
        [?r1,
         \<lparr> resp_id = ''call-8'', resp_name = ''closeAccount'',
           resp_result = ErrorResult ''Unknown function call: closeAccount'' None \<rparr>,
         \<lparr> resp_id = ''call-10'', resp_name = ''getAccountBalance'',
           resp_result = BalanceResult 1000 \<rparr>],
        None)"
    by (simp add: checkingBalanceCall_result, simp add: unknownCall_def checkingBalanceCall_def)
  then show ?thesis
    using n s pre by simp
qed

text \<open>
  C6 as stated fails when an earlier function call of the same tool call throws: in a
  session, the tool call with \<open>getTransactionHistory\<close> on \<open>constructor\<close> followed by
  \<open>closeAccount\<close> ends at the exception, and no response is sent for the unknown call.
\<close>

theorem unknown_function_call_after_exception:
  "fc_name unknownCall \<notin> {''getAccountBalance'', ''transferFunds'', ''getTransactionHistory''}
   \<and> sessionPromiseRef connectedState = Some 1
   \<and> handleToolCall (mockData sampleEntry) initialAccounts connectedState
         [constructorHistoryCall, unknownCall] =
       (connectedState, [], Some TypeError)"
proof -
  have g: "getMockTransactionHistory (mockData sampleEntry) ''constructor'' None = Inl TypeError"
    by (rule getMockTransactionHistory_inherited_key) (simp add: objectPrototypeProperties_def)
  have "handleFunctionCall (mockData sampleEntry) initialAccounts connectedState
          constructorHistoryCall = Inl TypeError"
    using g by (simp add: handleFunctionCall_def constructorHistoryCall_def
          toLowerCase_samples Let_def)
  then have "handleToolCall (mockData sampleEntry) initialAccounts connectedState
               [constructorHistoryCall, unknownCall] = (connectedState, [], Some TypeError)"
    by (simp add: handleToolCall_def sessionPromiseRef_connectedState)
  then show ?thesis
    by (simp add: unknownCall_def sessionPromiseRef_connectedState)
qed


section \<open>Starting and stopping\<close>

text \<open>
  C7.  If a call in the \<open>try\<close> block of \<open>startConversation\<close> throws (the promise of
  \<open>getUserMedia\<close> rejects, or a constructor or the call of \<open>ai.live.connect\<close> throws), then
  afterwards \<open>error\<close> is the microphone message and \<open>status\<close> is \<open>idle\<close>.  Nothing else
  is undone or released: \<open>transcript\<close>, \<open>transactions\<close> and \<open>viewingHistory\<close> stay as
  cleared at the start, every ref assigned before the throw keeps its new value, and all
  other state and refs are as before the call.
\<close>

theorem startConversation_catch:
  assumes "getUserMedia p = Throws \<or> newInputAudioContext p = Throws
           \<or> newOutputAudioContext p = Throws \<or> newGoogleGenAI p = Throws
           \<or> liveConnect p = Throws"
  shows "error (startConversation p st) =
           Some ''Could not access the microphone. Please grant permission and try again.''
       \<and> status (startConversation p st) = idle
       \<and> transcript (startConversation p st) = []
       \<and> transactions (startConversation p st) = []
       \<and> viewingHistory (startConversation p st) = None
       \<and> isRecording (startConversation p st) = isRecording st
       \<and> accounts (startConversation p st) = accounts st
       \<and> apiKeySelected (startConversation p st) = apiKeySelected st
       \<and> sessionPromiseRef (startConversation p st) = sessionPromiseRef st
       \<and> scriptProcessorRef (startConversation p st) = scriptProcessorRef st
       \<and> mediaStreamSourceRef (startConversation p st) = mediaStreamSourceRef st
       \<and> currentInputTranscriptionRef (startConversation p st) = currentInputTranscriptionRef st
       \<and> currentOutputTranscriptionRef (startConversation p st) = currentOutputTranscriptionRef st
       \<and> mediaStreamRef (startConversation p st) =
           (case getUserMedia p of Throws \<Rightarrow> mediaStreamRef st | Returns stream \<Rightarrow> Some stream)
       \<and> inputAudioContextRef (startConversation p st) =
           (case (getUserMedia p, newInputAudioContext p) of
              (Returns stream, Returns inputContext) \<Rightarrow> Some inputContext
            | _ \<Rightarrow> inputAudioContextRef st)
       \<and> outputAudioContextRef (startConversation p st) =
           (case (getUserMedia p, newInputAudioContext p, newOutputAudioContext p) of
              (Returns stream, Returns inputContext, Returns outputContext) \<Rightarrow> Some outputContext
            | _ \<Rightarrow> outputAudioContextRef st)"
  using assms
  by (cases "getUserMedia p"; cases "newInputAudioContext p"; cases "newOutputAudioContext p";
      cases "newGoogleGenAI p"; cases "liveConnect p")
     (simp_all add: startConversation_def catchBranch_def)

text \<open>Instances: the microphone is refused in the initial state; \<open>connect\<close> throws
  while an earlier session is still referenced.\<close>

theorem startConversation_catch_witness:
  "getUserMedia microphoneDenied = Throws
   \<and> error (startConversation microphoneDenied initialState) =
       Some ''Could not access the microphone. Please grant permission and try again.''
   \<and> status (startConversation microphoneDenied initialState) = idle
   \<and> mediaStreamRef (startConversation microphoneDenied initialState) = None
   \<and> liveConnect connectThrows = Throws
   \<and> error (startConversation connectThrows connectedState) =
       Some ''Could not access the microphone. Please grant permission and try again.''
   \<and> status (startConversation connectThrows connectedState) = idle
   \<and> isRecording (startConversation connectThrows connectedState) = True
   \<and> sessionPromiseRef (startConversation connectThrows connectedState) = Some 1
   \<and> mediaStreamRef (startConversation connectThrows connectedState) = Some 4"
proof -
  have m: "getUserMedia microphoneDenied = Throws"
    by (simp add: microphoneDenied_def)
  then have hm: "getUserMedia microphoneDenied = Throws
           \<or> newInputAudioContext microphoneDenied = Throws
           \<or> newOutputAudioContext microphoneDenied = Throws
           \<or> newGoogleGenAI microphoneDenied = Throws
           \<or> liveConnect microphoneDenied = Throws"
    by simp
  have t: "liveConnect connectThrows = Throws"
    by (simp add: connectThrows_def)
  then have ht: "getUserMedia connectThrows = Throws \<or> newInputAudioContext connectThrows = Throws
           \<or> newOutputAudioContext connectThrows = Throws \<or> newGoogleGenAI connectThrows = Throws
           \<or> liveConnect connectThrows = Throws"
    by simp
  show ?thesis
    using startConversation_catch [OF hm, of initialState]
      startConversation_catch [OF ht, of connectedState] m t
    by (simp add: connectThrows_def connectedState_def initialState_def)
qed

text \<open>
  C8.  After \<open>stopConversation\<close>, from any state: \<open>isRecording\<close> is false, \<open>status\<close> is
  \<open>idle\<close>, and the session, media stream, script processor, media stream source and both
  audio context refs are \<open>null\<close>; \<open>transcript\<close>, \<open>accounts\<close>, \<open>transactions\<close>,
  \<open>viewingHistory\<close> and \<open>error\<close> are unchanged.
\<close>

theorem stopConversation_resets:
  "isRecording (stopConversation st) = False
   \<and> status (stopConversation st) = idle
   \<and> sessionPromiseRef (stopConversation st) = None
   \<and> mediaStreamRef (stopConversation st) = None
   \<and> scriptProcessorRef (stopConversation st) = None
   \<and> mediaStreamSourceRef (stopConversation st) = None
   \<and> inputAudioContextRef (stopConversation st) = None
   \<and> outputAudioContextRef (stopConversation st) = None
   \<and> transcript (stopConversation st) = transcript st
   \<and> accounts (stopConversation st) = accounts st
   \<and> transactions (stopConversation st) = transactions st
   \<and> viewingHistory (stopConversation st) = viewingHistory st
   \<and> error (stopConversation st) = error st"
  by (cases "scriptProcessorRef st"; cases "mediaStreamSourceRef st")
     (simp_all add: stopConversation_def)

text \<open>Instance: stopping a running session.\<close>

theorem stopConversation_resets_witness:
  "status (stopConversation connectedState) = idle
   \<and> isRecording (stopConversation connectedState) = False
   \<and> sessionPromiseRef (stopConversation connectedState) = None
   \<and> transcript (stopConversation connectedState) = transcript connectedState"
  using stopConversation_resets [of connectedState] by simp


section \<open>Streamed transcriptions\<close>

text \<open>
  C9.  Claim: for every transcription chunk the text of the chunk is appended to its
  accumulator and, if the last transcript entry is of the matching sender, the text of
  that entry is replaced by the accumulated string; on \<open>turnComplete\<close> both accumulators
  are reset to the empty string.

  The code at a message that carries the output chunk \<open>lo\<close> together with
  \<open>turnComplete\<close>, while the Agent entry and the accumulator hold \<open>Hel\<close>: the handler
  extends the accumulator to \<open>Hello\<close>, queues the updaters of lines 194 and 226, and
  clears the accumulators at lines 234 and 235.  React runs the updaters afterwards;
  they read the cleared ref, and the Agent entry ends with the empty text, not with
  the accumulated string \<open>Hello\<close>.  The same chunk in a message without \<open>turnComplete\<close>
  gives \<open>Hello\<close>.
\<close>

theorem turnComplete_erases_chunk_text:
  "handleMessage (mockData sampleEntry) initialAccounts speakingState lastChunkMessage =
     (speakingState\<lparr>
        transcript := [\<lparr> msg_id = ''1700000000000'', sender = User, msg_text = [] \<rparr>,
                       \<lparr> msg_id = ''1700000000001'', sender = Agent, msg_text = [] \<rparr>],
        currentOutputTranscriptionRef := [] \<rparr>,
      [], None)
   \<and> handleMessage (mockData sampleEntry) initialAccounts speakingState chunkMessage =
     (speakingState\<lparr>
        transcript := [\<lparr> msg_id = ''1700000000000'', sender = User, msg_text = [] \<rparr>,
                       \<lparr> msg_id = ''1700000000001'', sender = Agent, msg_text = ''Hello'' \<rparr>],
        currentOutputTranscriptionRef := ''Hello'' \<rparr>,
      [], None)"
  by (simp add: handleMessage_def handleServerContent_def onOutputTranscription_def
        onTurnComplete_def runUpdater_def replaceLastText_def slice_0_neg1 trim_def
        isWhiteSpace_def lastChunkMessage_def chunkMessage_def speakingState_def
        connectedState_def initialState_def)

end
